theory Spec2Isabelle
  imports Main "HOL-Library.Sublist"
begin

section \<open>lmdiff: changed-file resolution and content reconstruction\<close>

text \<open>
  A shallow embedding of \<^verbatim>\<open>main.go\<close> and \<^verbatim>\<open>pkg/diff/diff.go\<close>. The program talks to
  the outside world through four channels: it runs \<^verbatim>\<open>git\<close>, it reads files, it stats
  paths and it walks directories. The answers of the outside world are collected in a
  record \<open>env\<close>; what the program does to the outside world (log lines written, external
  calls made) is collected in a record \<open>state\<close> that every operation takes and returns.
\<close>

subsection \<open>Go strings: \<^verbatim>\<open>strings.TrimSpace\<close> and \<^verbatim>\<open>strings.Split\<close>\<close>

text \<open>
  A Go string is a sequence of bytes, here a \<open>char list\<close>. \<^verbatim>\<open>strings.TrimSpace\<close> removes
  leading and trailing white space as defined by Unicode (\<^verbatim>\<open>unicode.IsSpace\<close>); on bytes these
  are the UTF-8 encodings of U+0009..U+000D, U+0020, U+0085, U+00A0, U+1680, U+2000..U+200A,
  U+2028, U+2029, U+202F, U+205F and U+3000.
\<close>

definition utf8_spaces :: "string list" where
  "utf8_spaces =
    [[CHR 0x09], [CHR 0x0A], [CHR 0x0B], [CHR 0x0C], [CHR 0x0D], [CHR 0x20],
     [CHR 0xC2, CHR 0x85], [CHR 0xC2, CHR 0xA0],
     [CHR 0xE1, CHR 0x9A, CHR 0x80],
     [CHR 0xE2, CHR 0x80, CHR 0x80], [CHR 0xE2, CHR 0x80, CHR 0x81],
     [CHR 0xE2, CHR 0x80, CHR 0x82], [CHR 0xE2, CHR 0x80, CHR 0x83],
     [CHR 0xE2, CHR 0x80, CHR 0x84], [CHR 0xE2, CHR 0x80, CHR 0x85],
     [CHR 0xE2, CHR 0x80, CHR 0x86], [CHR 0xE2, CHR 0x80, CHR 0x87],
     [CHR 0xE2, CHR 0x80, CHR 0x88], [CHR 0xE2, CHR 0x80, CHR 0x89],
     [CHR 0xE2, CHR 0x80, CHR 0x8A],
     [CHR 0xE2, CHR 0x80, CHR 0xA8], [CHR 0xE2, CHR 0x80, CHR 0xA9],
     [CHR 0xE2, CHR 0x80, CHR 0xAF], [CHR 0xE2, CHR 0x81, CHR 0x9F],
     [CHR 0xE3, CHR 0x80, CHR 0x80]]"

text \<open>The number of bytes of the white-space rune that \<open>s\<close> starts with, 0 if there is none.\<close>

definition lead_space :: "string list \<Rightarrow> string \<Rightarrow> nat" where
  "lead_space encs s =
     (case filter (\<lambda>w. w \<noteq> [] \<and> prefix w s) encs of [] \<Rightarrow> 0 | w # _ \<Rightarrow> length w)"

function strip :: "string list \<Rightarrow> string \<Rightarrow> string" where
  "strip encs s =
     (if lead_space encs s = 0 then s else strip encs (drop (lead_space encs s) s))"
  by pat_completeness auto
termination
proof (relation "measure (\<lambda>(encs, s). length s)")
  show "wf (measure (\<lambda>(encs, s). length s))" by simp
next
  fix encs :: "string list" and s :: string
  assume pos: "lead_space encs s \<noteq> 0"
  have "s \<noteq> []"
  proof
    assume "s = []"
    then have "filter (\<lambda>w. w \<noteq> [] \<and> prefix w s) encs = []"
      by (induction encs) auto
    then have "lead_space encs s = 0" by (simp add: lead_space_def)
    with pos show False by simp
  qed
  with pos show "((encs, drop (lead_space encs s) s), (encs, s)) \<in> measure (\<lambda>(encs, s). length s)"
    by simp
qed

text \<open>Trailing white space is leading white space of the reversed string, encodings reversed.\<close>

definition TrimSpace :: "string \<Rightarrow> string" where
  "TrimSpace s = rev (strip (map rev utf8_spaces) (rev (strip utf8_spaces s)))"

text \<open>
  \<^verbatim>\<open>strings.Split(s, sep)\<close> for a non-empty separator: the substrings between the
  non-overlapping occurrences of \<open>sep\<close>, found from the left; \<open>cur\<close> is the substring being
  collected. (The program only calls it with the separator \<^verbatim>\<open>"\n"\<close>; Go's special case of
  an empty separator is not reached and yields the unsplit string here.)
\<close>

function split_from :: "string \<Rightarrow> string \<Rightarrow> string \<Rightarrow> string list" where
  "split_from sep cur [] = [cur]"
| "split_from sep cur (c # cs) =
     (if sep \<noteq> [] \<and> prefix sep (c # cs)
      then cur # split_from sep [] (drop (length sep) (c # cs))
      else split_from sep (cur @ [c]) cs)"
  by pat_completeness auto
termination
  by (relation "measure (\<lambda>(sep, cur, s). length s)") auto

definition Split :: "string \<Rightarrow> string \<Rightarrow> string list" where
  "Split s sep = split_from sep [] s"

subsection \<open>The outside world\<close>

text \<open>A Go \<^verbatim>\<open>error\<close> is its message.\<close>

datatype error = Err (msg: string)

text \<open>
  The outcome of \<^verbatim>\<open>cmd.Run()\<close> with \<^verbatim>\<open>cmd.Stdout\<close> and \<^verbatim>\<open>cmd.Stderr\<close> set to buffers: both
  buffers and the error (\<open>None\<close> is Go's \<^verbatim>\<open>nil\<close>).
\<close>

record cmd_result =
  stdout :: string
  stderr :: string
  run_err :: "error option"

text \<open>The part of \<^verbatim>\<open>os.FileInfo\<close> that the program reads.\<close>

record file_info =
  Name :: string
  IsDir :: bool

text \<open>
  What \<^verbatim>\<open>os.Lstat\<close> can report for an entry that is not a directory (the type bits of
  \<^verbatim>\<open>fs.FileMode\<close>): a regular file, a symbolic link (\<^verbatim>\<open>Lstat\<close> does not follow it, also when
  it points to a directory), a named pipe, a socket or a device.
\<close>

datatype file_kind = Regular | Symlink | NamedPipe | Socket | Device

text \<open>
  The file tree below a path, as \<^verbatim>\<open>filepath.Walk\<close> sees it through \<^verbatim>\<open>os.Lstat\<close> and the
  sorted directory listing: an entry whose \<^verbatim>\<open>Lstat\<close> fails, a non-directory with its kind,
  a directory whose listing fails, or a directory with its entries in listing order. Every
  node carries its base name, which is both the name in its parent's listing and
  \<^verbatim>\<open>info.Name()\<close>.
\<close>

datatype fsnode =
    NoInfo string error
  | File string file_kind
  | BadDir string error
  | Dir string "fsnode list"

record env =
  run_git :: "string list \<Rightarrow> cmd_result"
  os_ReadFile :: "string \<Rightarrow> error + string"
  os_Stat :: "string \<Rightarrow> error + file_info"
  lstat_tree :: "string \<Rightarrow> fsnode"
  filepath_Join :: "string \<Rightarrow> string \<Rightarrow> string"

text \<open>What the program does to the world: the lines it logs and the external calls it makes.\<close>

datatype syscall =
    Exec string "string list"
  | ReadFile string
  | Stat string
  | Walk string

record state =
  diagnostics :: "string list"
  calls :: "syscall list"

definition log_Printf :: "string \<Rightarrow> state \<Rightarrow> state" where
  "log_Printf line s = s\<lparr>diagnostics := diagnostics s @ [line]\<rparr>"

definition call :: "syscall \<Rightarrow> state \<Rightarrow> state" where
  "call c s = s\<lparr>calls := calls s @ [c]\<rparr>"

subsection \<open>\<^verbatim>\<open>pkg/diff/diff.go\<close>\<close>

definition GetGitDiff :: "env \<Rightarrow> string \<Rightarrow> state \<Rightarrow> (error + string) \<times> state" where
  "GetGitDiff e branch s =
     (let args = [''diff'', branch];
          r = run_git e args;
          s1 = call (Exec ''git'' args) s
      in case run_err r of
           Some err \<Rightarrow>
             (Inl (Err (''error executing git diff: '' @ msg err @ '', '' @ stderr r)), s1)
         | None \<Rightarrow> (Inr (stdout r), s1))"

definition GetUntrackedFiles :: "env \<Rightarrow> state \<Rightarrow> (error + string list) \<times> state" where
  "GetUntrackedFiles e s =
     (let args = [''ls-files'', ''--others'', ''--exclude-standard''];
          r = run_git e args;
          s1 = call (Exec ''git'' args) s
      in case run_err r of
           Some err \<Rightarrow>
             (Inl (Err (''error getting untracked files: '' @ msg err @ '', '' @ stderr r)), s1)
         | None \<Rightarrow>
             (let files = Split (TrimSpace (stdout r)) ''\<newline>''
              in if length files = 1 \<and> files ! 0 = '''' then (Inr [], s1)
                 else (Inr files, s1)))"

definition GetChangedFiles ::
  "env \<Rightarrow> string \<Rightarrow> bool \<Rightarrow> state \<Rightarrow> (error + string list) \<times> state" where
  "GetChangedFiles e branch includeUntracked s =
     (let args = [''diff'', ''--name-only'', branch];
          r = run_git e args;
          s1 = call (Exec ''git'' args) s
      in case run_err r of
           Some err \<Rightarrow>
             (Inl (Err (''error getting changed files: '' @ msg err @ '', '' @ stderr r)), s1)
         | None \<Rightarrow>
             (let files0 = Split (TrimSpace (stdout r)) ''\<newline>'';
                  files = (if length files0 = 1 \<and> files0 ! 0 = '''' then [] else files0)
              in if includeUntracked
                 then (case GetUntrackedFiles e s1 of
                         (Inl err, s2) \<Rightarrow>
                           (Inl (Err (''error getting untracked files: '' @ msg err)), s2)
                       | (Inr untrackedFiles, s2) \<Rightarrow> (Inr (files @ untrackedFiles), s2))
                 else (Inr files, s1)))"

definition GetFileContent :: "env \<Rightarrow> string \<Rightarrow> string \<Rightarrow> state \<Rightarrow> (error + string) \<times> state" where
  "GetFileContent e branch filename s =
     (let args = [''show'', branch @ '':'' @ filename];
          r = run_git e args;
          s1 = call (Exec ''git'' args) s
      in case run_err r of
           Some err \<Rightarrow>
             (Inl (Err (''error getting file content for '' @ filename @ '' from branch ''
                        @ branch @ '': '' @ msg err @ '', '' @ stderr r)), s1)
         | None \<Rightarrow> (Inr (stdout r), s1))"

definition GetLocalFileContent :: "env \<Rightarrow> string \<Rightarrow> state \<Rightarrow> (error + string) \<times> state" where
  "GetLocalFileContent e filename s =
     (let s1 = call (ReadFile filename) s
      in case os_ReadFile e filename of
           Inl err \<Rightarrow>
             (Inl (Err (''error reading local file '' @ filename @ '': '' @ msg err)), s1)
         | Inr content \<Rightarrow> (Inr content, s1))"

definition IsDirectory :: "env \<Rightarrow> string \<Rightarrow> state \<Rightarrow> (error + bool) \<times> state" where
  "IsDirectory e path s =
     (let s1 = call (Stat path) s
      in case os_Stat e path of
           Inl err \<Rightarrow> (Inl err, s1)
         | Inr fileInfo \<Rightarrow> (Inr (IsDir fileInfo), s1))"

subsection \<open>\<^verbatim>\<open>filepath.Walk\<close> of the Go standard library\<close>

text \<open>
  What a \<^verbatim>\<open>WalkFunc\<close> returns: \<^verbatim>\<open>nil\<close>, \<^verbatim>\<open>filepath.SkipDir\<close> or another error. The function
  is a closure over variables it may update; their value \<open>'s\<close> is passed in and returned.
\<close>

datatype walk_ret = Nil | SkipDir | Fail error

type_synonym 's WalkFunc =
  "string \<Rightarrow> file_info option \<Rightarrow> error option \<Rightarrow> 's \<Rightarrow> walk_ret \<times> 's"

fun node_name :: "fsnode \<Rightarrow> string" where
  "node_name (NoInfo n err) = n"
| "node_name (File n kind) = n"
| "node_name (BadDir n err) = n"
| "node_name (Dir n kids) = n"

fun node_is_dir :: "fsnode \<Rightarrow> bool" where
  "node_is_dir (BadDir n err) = True"
| "node_is_dir (Dir n kids) = True"
| "node_is_dir t = False"

definition node_info :: "fsnode \<Rightarrow> file_info" where
  "node_info t = \<lparr>Name = node_name t, IsDir = node_is_dir t\<rparr>"

text \<open>
  \<open>walk\<close> is the library's recursive \<^verbatim>\<open>walk(path, info, walkFn)\<close>, called on a node whose
  \<^verbatim>\<open>Lstat\<close> succeeded; \<open>walk_names\<close> is its loop over the names of a directory. For a
  directory the listing is read before the function is called on the directory itself, and
  a failed listing is handed to that call. In the loop, a failed \<^verbatim>\<open>Lstat\<close> of an entry is
  handed to the function, whose answer stops the walk unless it is \<^verbatim>\<open>nil\<close> or \<^verbatim>\<open>SkipDir\<close>;
  an answer of the recursive call stops the walk unless it is \<^verbatim>\<open>nil\<close>, or \<^verbatim>\<open>SkipDir\<close> from
  a directory. (On \<open>NoInfo\<close>, where the library does not call \<open>walk\<close>, the equation is the
  call that \<^verbatim>\<open>filepath.Walk\<close> makes for a root whose \<^verbatim>\<open>Lstat\<close> fails.)
\<close>

fun walk ::
  "(string \<Rightarrow> string \<Rightarrow> string) \<Rightarrow> string \<Rightarrow> fsnode \<Rightarrow> 's WalkFunc \<Rightarrow> 's \<Rightarrow> walk_ret \<times> 's"
and walk_names ::
  "(string \<Rightarrow> string \<Rightarrow> string) \<Rightarrow> string \<Rightarrow> fsnode list \<Rightarrow> 's WalkFunc \<Rightarrow> 's \<Rightarrow> walk_ret \<times> 's"
where
  "walk join path (NoInfo n err) fn s = fn path None (Some err) s"
| "walk join path (File n kind) fn s = fn path (Some (node_info (File n kind))) None s"
| "walk join path (BadDir n err) fn s =
     fn path (Some (node_info (BadDir n err))) (Some err) s"
| "walk join path (Dir n kids) fn s =
     (case fn path (Some (node_info (Dir n kids))) None s of
        (Nil, s1) \<Rightarrow> walk_names join path kids fn s1
      | (err1, s1) \<Rightarrow> (err1, s1))"
| "walk_names join path [] fn s = (Nil, s)"
| "walk_names join path (NoInfo n err # rest) fn s =
     (case fn (join path n) None (Some err) s of
        (Fail err', s1) \<Rightarrow> (Fail err', s1)
      | (_, s1) \<Rightarrow> walk_names join path rest fn s1)"
| "walk_names join path (kid # rest) fn s =
     (case walk join (join path (node_name kid)) kid fn s of
        (Nil, s1) \<Rightarrow> walk_names join path rest fn s1
      | (SkipDir, s1) \<Rightarrow>
          (if node_is_dir kid then walk_names join path rest fn s1 else (SkipDir, s1))
      | (Fail err', s1) \<Rightarrow> (Fail err', s1))"

text \<open>
  \<^verbatim>\<open>filepath.Walk(root, fn)\<close>: \<^verbatim>\<open>Lstat\<close> the root, call the function with the error if that
  fails and walk the tree otherwise; \<^verbatim>\<open>SkipDir\<close> at the top is success.
\<close>

definition filepath_Walk :: "env \<Rightarrow> string \<Rightarrow> 's WalkFunc \<Rightarrow> 's \<Rightarrow> error option \<times> 's" where
  "filepath_Walk e root fn s =
     (case (case lstat_tree e root of
              NoInfo n err \<Rightarrow> fn root None (Some err) s
            | t \<Rightarrow> walk (filepath_Join e) root t fn s) of
        (Fail err, s1) \<Rightarrow> (Some err, s1)
      | (_, s1) \<Rightarrow> (None, s1))"

subsection \<open>\<^verbatim>\<open>GetAllFilesInDirectory\<close>\<close>

text \<open>
  The function literal passed to \<^verbatim>\<open>filepath.Walk\<close>; its captured variable is \<open>files\<close>.
  It reads \<open>info\<close> only when \<open>err\<close> is \<^verbatim>\<open>nil\<close>; the library never calls it with both
  \<^verbatim>\<open>nil\<close>, where Go would panic on the nil interface.
\<close>

definition walkFn :: "string list WalkFunc" where
  "walkFn path info err files =
     (case err of
        Some e \<Rightarrow> (Fail e, files)
      | None \<Rightarrow>
          (case info of
             None \<Rightarrow> (Fail (Err ''invalid memory address or nil pointer dereference''), files)
           | Some i \<Rightarrow>
               if IsDir i \<and> Name i = ''.git'' then (SkipDir, files)
               else if \<not> IsDir i then (Nil, files @ [path])
               else (Nil, files)))"

definition GetAllFilesInDirectory ::
  "env \<Rightarrow> string \<Rightarrow> state \<Rightarrow> (error + string list) \<times> state" where
  "GetAllFilesInDirectory e dirPath s =
     (let s1 = call (Walk dirPath) s
      in case filepath_Walk e dirPath walkFn [] of
           (Some err, files) \<Rightarrow>
             (Inl (Err (''error walking directory '' @ dirPath @ '': '' @ msg err)), s1)
         | (None, files) \<Rightarrow> (Inr files, s1))"

subsection \<open>\<^verbatim>\<open>main.go\<close>\<close>

definition processFile :: "env \<Rightarrow> string \<Rightarrow> string \<Rightarrow> state \<Rightarrow> string \<times> state" where
  "processFile e file branch s =
     (case GetFileContent e branch file s of
        (Inl err, s1) \<Rightarrow>
          (case GetLocalFileContent e file s1 of
             (Inl err2, s2) \<Rightarrow>
               (''Error retrieving file content.'',
                log_Printf (''Warning: cannot retrieve content for '' @ file @ '': '' @ msg err2) s2)
           | (Inr localContent, s2) \<Rightarrow> (localContent, s2))
      | (Inr content, s1) \<Rightarrow> (content, s1))"

text \<open>The inner loop of \<^verbatim>\<open>main\<close> over the files of a directory (lines 83 to 86).\<close>

fun process_dir_files ::
  "env \<Rightarrow> string \<Rightarrow> string list \<Rightarrow> (string \<rightharpoonup> string) \<times> state \<Rightarrow> (string \<rightharpoonup> string) \<times> state"
where
  "process_dir_files e branch [] (originalFiles, s) = (originalFiles, s)"
| "process_dir_files e branch (dirFile # rest) (originalFiles, s) =
     (case processFile e dirFile branch s of
        (content, s1) \<Rightarrow> process_dir_files e branch rest (originalFiles(dirFile \<mapsto> content), s1))"

text \<open>The loop of \<^verbatim>\<open>main\<close> over \<open>changedFiles\<close> (lines 62 to 92).\<close>

fun process_changed ::
  "env \<Rightarrow> string \<Rightarrow> string list \<Rightarrow> (string \<rightharpoonup> string) \<times> state \<Rightarrow> (string \<rightharpoonup> string) \<times> state"
where
  "process_changed e branch [] (originalFiles, s) = (originalFiles, s)"
| "process_changed e branch (file # rest) (originalFiles, s) =
     (if file = '''' then process_changed e branch rest (originalFiles, s)
      else
        (case IsDirectory e file s of
           (Inl err, s1) \<Rightarrow>
             process_changed e branch rest
               (originalFiles,
                log_Printf (''Warning: could not determine if '' @ file @ '' is a directory: ''
                            @ msg err) s1)
         | (Inr isDir, s1) \<Rightarrow>
             if isDir then
               (case GetAllFilesInDirectory e file s1 of
                  (Inl err, s2) \<Rightarrow>
                    process_changed e branch rest
                      (originalFiles,
                       log_Printf (''Warning: could not read directory '' @ file @ '': ''
                                   @ msg err) s2)
                | (Inr dirFiles, s2) \<Rightarrow>
                    process_changed e branch rest
                      (process_dir_files e branch dirFiles (originalFiles, s2)))
             else
               (case processFile e file branch s1 of
                  (content, s2) \<Rightarrow>
                    process_changed e branch rest (originalFiles(file \<mapsto> content), s2))))"

text \<open>
  \<^verbatim>\<open>main\<close> from the first call to the arguments of \<^verbatim>\<open>prompt.ConstructLLMPrompt\<close> (lines 46
  to 95): \<^verbatim>\<open>log.Fatalf\<close> ends the run, otherwise the diff, the changed files and the map of
  contents are handed to the prompt. Printing the prompt and the clipboard are not modelled.
\<close>

datatype outcome =
    Fatal string
  | Prompt (prompt_diff: string) (prompt_changedFiles: "string list")
      (prompt_files: "string \<rightharpoonup> string")

definition main :: "env \<Rightarrow> string \<Rightarrow> bool \<Rightarrow> state \<Rightarrow> outcome \<times> state" where
  "main e branch includeUntracked s =
     (case GetGitDiff e branch s of
        (Inl err, s1) \<Rightarrow> (Fatal (''Failed to get git diff: '' @ msg err), s1)
      | (Inr gitDiff, s1) \<Rightarrow>
          (case GetChangedFiles e branch includeUntracked s1 of
             (Inl err, s2) \<Rightarrow> (Fatal (''Failed to get list of changed files: '' @ msg err), s2)
           | (Inr changedFiles, s2) \<Rightarrow>
               (case process_changed e branch changedFiles (Map.empty, s2) of
                  (originalFiles, s3) \<Rightarrow> (Prompt gitDiff changedFiles originalFiles, s3))))"

subsection \<open>The walk, described by the tree\<close>

text \<open>
  Three descriptions of a file tree that do not run the walk. \<open>walk_errors\<close>: the errors at
  the nodes that are not beneath a directory named \<^verbatim>\<open>.git\<close>, in listing order.
  \<open>tree_files\<close>: the paths of the non-directories that are not beneath a directory named
  \<^verbatim>\<open>.git\<close>, in listing order. \<open>locate\<close>: the nodes reached from a node by following a
  sequence of names downwards.
\<close>

fun walk_errors :: "fsnode \<Rightarrow> error list" where
  "walk_errors (NoInfo n err) = [err]"
| "walk_errors (File n kind) = []"
| "walk_errors (BadDir n err) = [err]"
| "walk_errors (Dir n kids) = (if n = ''.git'' then [] else concat (map walk_errors kids))"

fun tree_files :: "(string \<Rightarrow> string \<Rightarrow> string) \<Rightarrow> string \<Rightarrow> fsnode \<Rightarrow> string list" where
  "tree_files join path (File n kind) = [path]"
| "tree_files join path (Dir n kids) =
     (if n = ''.git'' then []
      else concat (map (\<lambda>kid. tree_files join (join path (node_name kid)) kid) kids))"
| "tree_files join path t = []"

fun locate :: "fsnode \<Rightarrow> string list \<Rightarrow> fsnode list" where
  "locate t [] = [t]"
| "locate (Dir n kids) (c # cs) =
     concat (map (\<lambda>kid. locate kid cs) (filter (\<lambda>kid. node_name kid = c) kids))"
| "locate t (c # cs) = []"

subsection \<open>Example worlds\<close>

definition init_state :: state where
  "init_state = \<lparr>diagnostics = [], calls = []\<rparr>"

definition ok :: "string \<Rightarrow> cmd_result" where
  "ok out = \<lparr>stdout = out, stderr = '''', run_err = None\<rparr>"

text \<open>
  A repository compared with \<^verbatim>\<open>main\<close>: \<^verbatim>\<open>src/a.go\<close> is changed (\<^verbatim>\<open>old\<close> at \<^verbatim>\<open>main\<close>, \<^verbatim>\<open>new\<close> in the
  working tree), \<^verbatim>\<open>gone.txt\<close> is deleted from the working tree and was not at \<^verbatim>\<open>main\<close> either,
  \<^verbatim>\<open>pkg\<close> is a directory with its own \<^verbatim>\<open>.git\<close>, and \<^verbatim>\<open>notes.txt\<close> is untracked.
\<close>

definition example_env :: env where
  "example_env =
     \<lparr>run_git = (\<lambda>args.
        if args = [''diff'', ''main''] then ok ''diff --git a/src/a.go b/src/a.go''
        else if args = [''diff'', ''--name-only'', ''main'']
          then ok ''src/a.go\<newline>\<newline>gone.txt\<newline>pkg\<newline>''
        else if args = [''ls-files'', ''--others'', ''--exclude-standard'']
          then ok ''notes.txt\<newline>''
        else if args = [''show'', ''main:src/a.go''] then ok ''old''
        else \<lparr>stdout = '''', stderr = ''fatal: invalid object name'',
               run_err = Some (Err ''exit status 128'')\<rparr>),
      os_ReadFile = (\<lambda>p.
        if p = ''src/a.go'' then Inr ''new''
        else if p = ''notes.txt'' then Inr ''hello''
        else if p = ''pkg/a.go'' then Inr ''package pkg''
        else if p = ''pkg/sub/b.go'' then Inr ''package sub''
        else Inl (Err (''open '' @ p @ '': no such file or directory''))),
      os_Stat = (\<lambda>p.
        if p = ''src/a.go'' then Inr \<lparr>Name = ''a.go'', IsDir = False\<rparr>
        else if p = ''notes.txt'' then Inr \<lparr>Name = ''notes.txt'', IsDir = False\<rparr>
        else if p = ''pkg'' then Inr \<lparr>Name = ''pkg'', IsDir = True\<rparr>
        else Inl (Err (''stat '' @ p @ '': no such file or directory''))),
      lstat_tree = (\<lambda>p.
        if p = ''pkg''
        then Dir ''pkg'' [Dir ''.git'' [File ''ignored'' Regular], File ''a.go'' Regular,
                         Dir ''sub'' [File ''b.go'' Regular]]
        else NoInfo p (Err (''lstat '' @ p @ '': no such file or directory''))),
      filepath_Join = (\<lambda>p n. p @ ''/'' @ n)\<rparr>"

text \<open>The same repository when both listings print a single blank line.\<close>

definition blank_env :: env where
  "blank_env = example_env\<lparr>run_git := (\<lambda>args. ok ''\<newline>'')\<rparr>"

text \<open>The same repository when \<^verbatim>\<open>pkg/sub/locked\<close> cannot be listed.\<close>

definition locked_env :: env where
  "locked_env = example_env\<lparr>lstat_tree := (\<lambda>p.
     Dir ''pkg'' [File ''a.go'' Regular,
                  Dir ''sub'' [File ''b.go'' Regular,
                               BadDir ''locked'' (Err ''permission denied'')],
                  File ''z.go'' Regular])\<rparr>"

text \<open>
  The same repository when \<^verbatim>\<open>pkg\<close> also holds \<^verbatim>\<open>linkdir\<close>, a symbolic link to a directory:
  \<^verbatim>\<open>os.Lstat\<close> reports a link, \<^verbatim>\<open>os.Stat\<close> follows it and reports a directory.
\<close>

definition link_env :: env where
  "link_env = example_env\<lparr>
     lstat_tree := (\<lambda>p. Dir ''pkg'' [File ''a.go'' Regular, File ''linkdir'' Symlink]),
     os_Stat := (\<lambda>p. if p = ''pkg/linkdir'' then Inr \<lparr>Name = ''linkdir'', IsDir = True\<rparr>
                      else os_Stat example_env p)\<rparr>"

text \<open>A repository in which a changed file is named by a single space.\<close>

definition space_env :: env where
  "space_env = example_env\<lparr>
     run_git := (\<lambda>args.
        if args = [''diff'', ''--name-only'', ''main''] then ok ''a\<newline> \<newline>b\<newline>''
        else if args = [''show'', ''main: ''] then ok ''spaced''
        else ok ''''),
     os_Stat := (\<lambda>p. Inr \<lparr>Name = p, IsDir = False\<rparr>)\<rparr>"

section \<open>Properties\<close>

subsection \<open>Splitting and trimming\<close>

declare strip.simps [simp del]

lemma split_from_not_Nil: "split_from sep cur s \<noteq> []"
  by (induction sep cur s rule: split_from.induct) auto

lemma split_from_single_empty:
  "split_from sep cur s = [[]] \<Longrightarrow> cur = [] \<and> s = []"
  by (induction sep cur s rule: split_from.induct) (auto split: if_splits simp: split_from_not_Nil)

lemma Split_single_empty: "Split s sep = [[]] \<longleftrightarrow> s = []"
  using split_from_single_empty [of sep "[]" s] by (auto simp: Split_def)

lemma split_from_char_append:
  "split_from [c] cur (a @ c # b) = split_from [c] cur a @ split_from [c] [] b"
  by (induction a arbitrary: cur) auto

lemma Split_char_append: "Split (a @ c # b) [c] = Split a [c] @ Split b [c]"
  by (simp add: Split_def split_from_char_append)

lemma Split_char_Cons: "Split (c # b) [c] = [] # Split b [c]"
  by (simp add: Split_def)

lemma single_empty_iff: "(length fs = Suc 0 \<and> fs ! 0 = []) \<longleftrightarrow> fs = [[]]"
  by (cases fs) auto

lemma GetUntrackedFiles_fst:
  "fst (GetUntrackedFiles e s) =
     (let r = run_git e [''ls-files'', ''--others'', ''--exclude-standard''] in
      case run_err r of
        Some err \<Rightarrow> Inl (Err (''error getting untracked files: '' @ msg err @ '', '' @ stderr r))
      | None \<Rightarrow> if TrimSpace (stdout r) = [] then Inr [] else Inr (Split (TrimSpace (stdout r)) ''\<newline>''))"
  by (simp add: GetUntrackedFiles_def Let_def single_empty_iff Split_single_empty split: option.splits)

lemma GetUntrackedFiles_snd:
  "snd (GetUntrackedFiles e s) = call (Exec ''git'' [''ls-files'', ''--others'', ''--exclude-standard'']) s"
  by (simp add: GetUntrackedFiles_def Let_def split: option.splits)

lemma GetUntrackedFiles_fst_state:
  "fst (GetUntrackedFiles e s) = fst (GetUntrackedFiles e s')"
  by (simp add: GetUntrackedFiles_fst)

lemma GetChangedFiles_fst:
  "fst (GetChangedFiles e branch includeUntracked s) =
     (let r = run_git e [''diff'', ''--name-only'', branch] in
      case run_err r of
        Some err \<Rightarrow> Inl (Err (''error getting changed files: '' @ msg err @ '', '' @ stderr r))
      | None \<Rightarrow>
          (let files = (if TrimSpace (stdout r) = [] then [] else Split (TrimSpace (stdout r)) ''\<newline>'')
           in if includeUntracked
              then (case fst (GetUntrackedFiles e s') of
                      Inl err \<Rightarrow> Inl (Err (''error getting untracked files: '' @ msg err))
                    | Inr untrackedFiles \<Rightarrow> Inr (files @ untrackedFiles))
              else Inr files))"
  using GetUntrackedFiles_fst_state [of e "call (Exec ''git'' [''diff'', ''--name-only'', branch]) s" s']
  by (simp add: GetChangedFiles_def single_empty_iff Split_single_empty Let_def split_beta
           split: option.splits sum.splits)


text \<open>
  Claim C7. When a listing command succeeds and its output trims to the empty string, as a
  single blank line does, the result has no entries: \<open>GetUntrackedFiles\<close> returns the
  empty sequence, and so does \<open>GetChangedFiles\<close> without untracked files; with untracked
  files it returns exactly the untracked ones. It is neither an error nor the sequence
  holding one empty string.
\<close>

theorem C7_blank_output_gives_no_entries:
  "(run_err (run_git e [''ls-files'', ''--others'', ''--exclude-standard'']) = None \<and>
    TrimSpace (stdout (run_git e [''ls-files'', ''--others'', ''--exclude-standard''])) = ''''
      \<longrightarrow> fst (GetUntrackedFiles e s) = Inr []) \<and>
   (run_err (run_git e [''diff'', ''--name-only'', branch]) = None \<and>
    TrimSpace (stdout (run_git e [''diff'', ''--name-only'', branch])) = ''''
      \<longrightarrow> fst (GetChangedFiles e branch False s) = Inr [] \<and>
          (\<forall>untrackedFiles. fst (GetUntrackedFiles e s) = Inr untrackedFiles
             \<longrightarrow> fst (GetChangedFiles e branch True s) = Inr untrackedFiles))"
  by (simp add: GetUntrackedFiles_fst GetChangedFiles_fst [where s' = s])

lemma TrimSpace_newline: "TrimSpace ''\<newline>'' = []"
  by (simp add: TrimSpace_def utf8_spaces_def lead_space_def strip.simps)

theorem C7_blank_output_witness:
  "TrimSpace (stdout (run_git blank_env [''ls-files'', ''--others'', ''--exclude-standard''])) = '''' \<and>
   TrimSpace (stdout (run_git blank_env [''diff'', ''--name-only'', ''main''])) = '''' \<and>
   stdout (run_git blank_env [''diff'', ''--name-only'', ''main'']) = ''\<newline>'' \<and>
   fst (GetUntrackedFiles blank_env init_state) = Inr [] \<and>
   fst (GetChangedFiles blank_env ''main'' False init_state) = Inr [] \<and>
   fst (GetChangedFiles blank_env ''main'' True init_state) = Inr []"
  using C7_blank_output_gives_no_entries [of blank_env init_state "''main''"]
  by (simp add: blank_env_def ok_def TrimSpace_newline)


lemma TrimSpace_example_tracked:
  "TrimSpace ''src/a.go\<newline>\<newline>gone.txt\<newline>pkg\<newline>'' = ''src/a.go\<newline>\<newline>gone.txt\<newline>pkg''"
  by (simp add: TrimSpace_def utf8_spaces_def lead_space_def strip.simps)

lemma TrimSpace_example_untracked: "TrimSpace ''notes.txt\<newline>'' = ''notes.txt''"
  by (simp add: TrimSpace_def utf8_spaces_def lead_space_def strip.simps)


lemma example_untracked:
  "fst (GetUntrackedFiles example_env s) = Inr [''notes.txt'']"
  by (simp add: GetUntrackedFiles_fst example_env_def ok_def TrimSpace_example_untracked Split_def)


text \<open>
  Claim C10. When the trimmed output of a listing command is not empty, the result is
  exactly \<^verbatim>\<open>strings.Split\<close> of the trimmed output at the newlines: the normalisation to no
  entries does not apply, and a blank line between two parts of the output is an
  empty-string entry between the entries of the two parts.
\<close>

theorem C10_lines_of_trimmed_output:
  "(run_err (run_git e [''ls-files'', ''--others'', ''--exclude-standard'']) = None \<and>
    TrimSpace (stdout (run_git e [''ls-files'', ''--others'', ''--exclude-standard''])) = out \<and> out \<noteq> ''''
      \<longrightarrow> fst (GetUntrackedFiles e s) = Inr (Split out ''\<newline>'')) \<and>
   (run_err (run_git e [''diff'', ''--name-only'', branch]) = None \<and>
    TrimSpace (stdout (run_git e [''diff'', ''--name-only'', branch])) = out' \<and> out' \<noteq> ''''
      \<longrightarrow> fst (GetChangedFiles e branch False s) = Inr (Split out' ''\<newline>'') \<and>
          (\<forall>untrackedFiles. fst (GetUntrackedFiles e s) = Inr untrackedFiles
             \<longrightarrow> fst (GetChangedFiles e branch True s) = Inr (Split out' ''\<newline>'' @ untrackedFiles))) \<and>
   Split (a @ ''\<newline>\<newline>'' @ b) ''\<newline>'' = Split a ''\<newline>'' @ [''''] @ Split b ''\<newline>''"
  by (simp add: GetUntrackedFiles_fst GetChangedFiles_fst [where s' = s] Split_char_append
                Split_char_Cons)

lemma example_git_names:
  "run_git example_env [''diff'', ''--name-only'', ''main''] = ok ''src/a.go\<newline>\<newline>gone.txt\<newline>pkg\<newline>''"
  by (simp add: example_env_def)

lemma example_git_untracked:
  "run_git example_env [''ls-files'', ''--others'', ''--exclude-standard''] = ok ''notes.txt\<newline>''"
  by (simp add: example_env_def)

theorem C10_lines_of_trimmed_output_witness:
  "run_err (run_git example_env [''diff'', ''--name-only'', ''main'']) = None \<and>
   TrimSpace (stdout (run_git example_env [''diff'', ''--name-only'', ''main'']))
     = ''src/a.go\<newline>\<newline>gone.txt\<newline>pkg'' \<and>
   run_err (run_git example_env [''ls-files'', ''--others'', ''--exclude-standard'']) = None \<and>
   TrimSpace (stdout (run_git example_env [''ls-files'', ''--others'', ''--exclude-standard'']))
     = ''notes.txt'' \<and>
   fst (GetUntrackedFiles example_env init_state) = Inr [''notes.txt''] \<and>
   fst (GetChangedFiles example_env ''main'' False init_state)
     = Inr [''src/a.go'', [], ''gone.txt'', ''pkg''] \<and>
   fst (GetChangedFiles example_env ''main'' True init_state)
     = Inr [''src/a.go'', [], ''gone.txt'', ''pkg'', ''notes.txt'']"
  using C10_lines_of_trimmed_output
    [of example_env "''notes.txt''" init_state "''main''" "''src/a.go\<newline>\<newline>gone.txt\<newline>pkg''"
        "''src/a.go''" "''gone.txt\<newline>pkg''"]
  by (simp add: example_git_names example_git_untracked ok_def TrimSpace_example_tracked
        TrimSpace_example_untracked Split_def)

subsection \<open>The directory walk\<close>

lemma walkFn_simps:
  "walkFn path info (Some err) files = (Fail err, files)"
  "walkFn path (Some i) None files =
     (if IsDir i \<and> Name i = ''.git'' then (SkipDir, files)
      else if \<not> IsDir i then (Nil, files @ [path]) else (Nil, files))"
  by (simp_all add: walkFn_def)

lemma walk_walkFn:
  "(walk_errors t = [] \<longrightarrow>
      walk j p t walkFn fs =
        (if node_is_dir t \<and> node_name t = ''.git'' then SkipDir else Nil, fs @ tree_files j p t)) \<and>
   (\<forall>err errs. walk_errors t = err # errs \<longrightarrow> fst (walk j p t walkFn fs) = Fail err)"
  and walk_names_walkFn:
  "(concat (map walk_errors ks) = [] \<longrightarrow>
      walk_names j p ks walkFn fs =
        (Nil, fs @ concat (map (\<lambda>kid. tree_files j (j p (node_name kid)) kid) ks))) \<and>
   (\<forall>err errs. concat (map walk_errors ks) = err # errs \<longrightarrow>
      fst (walk_names j p ks walkFn fs) = Fail err)"
proof (induction j p t walkFn fs and j p ks walkFn fs rule: walk_walk_names.induct, goal_cases)
  case (9 join path v va rest s)
  show ?case
  proof (cases "walk_errors (Dir v va)")
    case Nil
    with 9 show ?thesis
      by (cases "v = ''.git''") (simp_all add: walkFn_simps node_info_def del: concat_eq_Nil_conv)
  next
    case (Cons err errs)
    with 9 show ?thesis
      by (cases "walk join (join path v) (Dir v va) walkFn s"; cases "v = ''.git''")
         (auto simp: walkFn_simps node_info_def simp del: concat_eq_Nil_conv)
  qed
qed (simp_all add: walkFn_simps node_info_def)

lemma GetAllFilesInDirectory_fst:
  "fst (GetAllFilesInDirectory e dirPath s) =
     (case walk_errors (lstat_tree e dirPath) of
        [] \<Rightarrow> Inr (tree_files (filepath_Join e) dirPath (lstat_tree e dirPath))
      | err # errs \<Rightarrow> Inl (Err (''error walking directory '' @ dirPath @ '': '' @ msg err)))"
proof (cases "walk_errors (lstat_tree e dirPath)")
  case Nil
  then have "walk (filepath_Join e) dirPath (lstat_tree e dirPath) walkFn [] =
      (if node_is_dir (lstat_tree e dirPath) \<and> node_name (lstat_tree e dirPath) = ''.git''
       then SkipDir else walk_ret.Nil,
       tree_files (filepath_Join e) dirPath (lstat_tree e dirPath))"
    using walk_walkFn [of "lstat_tree e dirPath" "filepath_Join e" dirPath "[]"] by simp
  with Nil show ?thesis
    by (cases "lstat_tree e dirPath")
       (simp_all add: GetAllFilesInDirectory_def filepath_Walk_def Let_def)
next
  case (Cons err errs)
  then have "fst (walk (filepath_Join e) dirPath (lstat_tree e dirPath) walkFn []) = Fail err"
    using walk_walkFn [of "lstat_tree e dirPath" "filepath_Join e" dirPath "[]"] by simp
  then obtain fs where fs:
    "walk (filepath_Join e) dirPath (lstat_tree e dirPath) walkFn [] = (Fail err, fs)"
    by (cases "walk (filepath_Join e) dirPath (lstat_tree e dirPath) walkFn []") simp
  have "filepath_Walk e dirPath walkFn [] = (Some err, fs)"
    using fs by (cases "lstat_tree e dirPath") (simp_all add: filepath_Walk_def)
  with Cons show ?thesis
    by (simp add: GetAllFilesInDirectory_def Let_def)
qed

lemma GetAllFilesInDirectory_snd:
  "snd (GetAllFilesInDirectory e dirPath s) = call (Walk dirPath) s"
  by (simp add: GetAllFilesInDirectory_def Let_def split: prod.splits option.splits)

lemma tree_files_located:
  "q \<in> set (tree_files j p t) \<Longrightarrow>
   \<exists>cs n kind. q = foldl j p cs \<and> File n kind \<in> set (locate t cs) \<and>
          ''.git'' \<notin> set (butlast (node_name t # cs))"
proof (induction t arbitrary: p q)
  case (File n kind)
  then have "q = foldl j p [] \<and> File n kind \<in> set (locate (File n kind) []) \<and>
             ''.git'' \<notin> set (butlast (node_name (File n kind) # []))" by simp
  then show ?case by blast
next
  case (Dir n kids)
  from Dir.prems have n: "n \<noteq> ''.git''" by (auto split: if_splits)
  with Dir.prems obtain kid where kid: "kid \<in> set kids"
    and q: "q \<in> set (tree_files j (j p (node_name kid)) kid)" by auto
  from Dir.IH [OF kid q] obtain cs m kind where
    cs: "q = foldl j (j p (node_name kid)) cs" "File m kind \<in> set (locate kid cs)"
        "''.git'' \<notin> set (butlast (node_name kid # cs))" by blast
  have "q = foldl j p (node_name kid # cs)" using cs(1) by simp
  moreover have "File m kind \<in> set (locate (Dir n kids) (node_name kid # cs))"
    using kid cs(2) by auto
  moreover have "''.git'' \<notin> set (butlast (node_name (Dir n kids) # node_name kid # cs))"
    using n cs(3) by simp
  ultimately show ?case by blast
qed simp_all

text \<open>
  Claim C5, amended. Every path that \<open>GetAllFilesInDirectory\<close> returns is the path of an
  entry of the tree that \<^verbatim>\<open>os.Lstat\<close> does not report as a directory, of whatever kind (a
  regular file, but also a symbolic link, a pipe, a socket or a device), reached from the
  root by joining the names \<open>cs\<close>, and none of the directories above it, the root included,
  is named \<^verbatim>\<open>.git\<close>. So no directory is returned and nothing beneath a \<^verbatim>\<open>.git\<close> directory
  is.
\<close>

theorem C5_listing_has_only_files_outside_git:
  "fst (GetAllFilesInDirectory e dirPath s) = Inr files \<Longrightarrow> q \<in> set files \<Longrightarrow>
   \<exists>cs n kind. q = foldl (filepath_Join e) dirPath cs \<and>
          File n kind \<in> set (locate (lstat_tree e dirPath) cs) \<and>
          ''.git'' \<notin> set (butlast (node_name (lstat_tree e dirPath) # cs))"
proof -
  assume res: "fst (GetAllFilesInDirectory e dirPath s) = Inr files" and q: "q \<in> set files"
  from res have "files = tree_files (filepath_Join e) dirPath (lstat_tree e dirPath)"
    by (simp add: GetAllFilesInDirectory_fst split: list.splits)
  with q show ?thesis
    using tree_files_located [of q "filepath_Join e" dirPath "lstat_tree e dirPath"] by simp
qed

lemma example_tree:
  "lstat_tree example_env ''pkg'' =
     Dir ''pkg'' [Dir ''.git'' [File ''ignored'' Regular], File ''a.go'' Regular,
                  Dir ''sub'' [File ''b.go'' Regular]]"
  "filepath_Join example_env = (\<lambda>p n. p @ ''/'' @ n)"
  by (simp_all add: example_env_def)

lemma example_listing:
  "fst (GetAllFilesInDirectory example_env ''pkg'' s) = Inr [''pkg/a.go'', ''pkg/sub/b.go'']"
  by (simp add: GetAllFilesInDirectory_fst example_tree)

theorem C5_listing_witness:
  "fst (GetAllFilesInDirectory example_env ''pkg'' init_state) = Inr [''pkg/a.go'', ''pkg/sub/b.go''] \<and>
   File ''ignored'' Regular
     \<in> set (locate (lstat_tree example_env ''pkg'') [''.git'', ''ignored'']) \<and>
   (\<exists>cs n kind. ''pkg/sub/b.go'' = foldl (filepath_Join example_env) ''pkg'' cs \<and>
          File n kind \<in> set (locate (lstat_tree example_env ''pkg'') cs) \<and>
          ''.git'' \<notin> set (butlast (node_name (lstat_tree example_env ''pkg'') # cs)))"
  using C5_listing_has_only_files_outside_git
    [OF example_listing, where q = "''pkg/sub/b.go''"]
  by (simp add: example_listing example_tree)

text \<open>
  Claim C5 as stated fails where it says that every element is a regular-file path: the
  listing of \<^verbatim>\<open>pkg\<close> holds \<^verbatim>\<open>pkg/linkdir\<close>, which is a symbolic link in the tree, and which
  \<open>IsDirectory\<close> even calls a directory.
\<close>

theorem C5_listing_returns_symlink:
  "fst (GetAllFilesInDirectory link_env ''pkg'' init_state) = Inr [''pkg/a.go'', ''pkg/linkdir''] \<and>
   locate (lstat_tree link_env ''pkg'') [''linkdir''] = [File ''linkdir'' Symlink] \<and>
   fst (IsDirectory link_env ''pkg/linkdir'' init_state) = Inr True"
  by (simp add: GetAllFilesInDirectory_fst IsDirectory_def link_env_def example_env_def)

text \<open>
  Claim C6. The errors that a walk can meet are those of \<open>walk_errors\<close>; the first of them
  is met first. If there is one, \<open>GetAllFilesInDirectory\<close> returns that error, wrapped, and
  no list, whatever had been collected before. If it returns a list, the walk met no error
  and the list is the complete listing \<open>tree_files\<close> of the tree.
\<close>

theorem C6_walk_error_aborts_listing:
  "(walk_errors (lstat_tree e dirPath) = err # errs \<longrightarrow>
      fst (GetAllFilesInDirectory e dirPath s) =
        Inl (Err (''error walking directory '' @ dirPath @ '': '' @ msg err))) \<and>
   (fst (GetAllFilesInDirectory e dirPath s) = Inr files \<longrightarrow>
      walk_errors (lstat_tree e dirPath) = [] \<and>
      files = tree_files (filepath_Join e) dirPath (lstat_tree e dirPath))"
  by (simp add: GetAllFilesInDirectory_fst split: list.splits)

lemma locked_tree:
  "lstat_tree locked_env ''pkg'' =
     Dir ''pkg'' [File ''a.go'' Regular,
                  Dir ''sub'' [File ''b.go'' Regular,
                               BadDir ''locked'' (Err ''permission denied'')],
                  File ''z.go'' Regular]"
  "filepath_Join locked_env = (\<lambda>p n. p @ ''/'' @ n)"
  by (simp_all add: locked_env_def example_env_def)

theorem C6_walk_error_witness:
  "walk_errors (lstat_tree locked_env ''pkg'') = [Err ''permission denied''] \<and>
   walk (filepath_Join locked_env) ''pkg'' (lstat_tree locked_env ''pkg'') walkFn [] =
     (Fail (Err ''permission denied''), [''pkg/a.go'', ''pkg/sub/b.go'']) \<and>
   fst (GetAllFilesInDirectory locked_env ''pkg'' init_state) =
     Inl (Err ''error walking directory pkg: permission denied'') \<and>
   fst (GetAllFilesInDirectory example_env ''pkg'' init_state) = Inr [''pkg/a.go'', ''pkg/sub/b.go''] \<and>
   walk_errors (lstat_tree example_env ''pkg'') = []"
  using C6_walk_error_aborts_listing
      [of locked_env "''pkg''" "Err ''permission denied''" "[]" init_state]
    C6_walk_error_aborts_listing
      [of example_env "''pkg''" _ _ init_state "[''pkg/a.go'', ''pkg/sub/b.go'']"]
  by (simp add: locked_tree example_listing example_tree walkFn_simps node_info_def)

subsection \<open>Resolving the content of a file\<close>

lemma GetFileContent_eq:
  "GetFileContent e branch filename s =
     (case run_err (run_git e [''show'', branch @ '':'' @ filename]) of
        Some err \<Rightarrow>
          Inl (Err (''error getting file content for '' @ filename @ '' from branch ''
                    @ branch @ '': '' @ msg err @ '', ''
                    @ stderr (run_git e [''show'', branch @ '':'' @ filename])))
      | None \<Rightarrow> Inr (stdout (run_git e [''show'', branch @ '':'' @ filename])),
      call (Exec ''git'' [''show'', branch @ '':'' @ filename]) s)"
  by (simp add: GetFileContent_def Let_def split: option.splits)

lemma GetLocalFileContent_eq:
  "GetLocalFileContent e filename s =
     (case os_ReadFile e filename of
        Inl err \<Rightarrow> Inl (Err (''error reading local file '' @ filename @ '': '' @ msg err))
      | Inr content \<Rightarrow> Inr content,
      call (ReadFile filename) s)"
  by (simp add: GetLocalFileContent_def Let_def split: sum.splits)

lemma IsDirectory_eq:
  "IsDirectory e path s =
     (case os_Stat e path of Inl err \<Rightarrow> Inl err | Inr fileInfo \<Rightarrow> Inr (IsDir fileInfo),
      call (Stat path) s)"
  by (simp add: IsDirectory_def Let_def split: sum.splits)

text \<open>
  Claim C1. \<open>processFile\<close> is a total function into text: it has no error result. What it
  returns is the content fetched from the revision, or, when that fetch fails, the content
  read from the working tree, or, when that read fails as well, the fixed placeholder. In
  the first two cases it logs nothing; in the third it logs exactly one warning, which
  names the path.
\<close>

theorem C1_processFile_always_returns_text:
  "(\<exists>content. fst (GetFileContent e branch file s) = Inr content \<and>
       fst (processFile e file branch s) = content \<and>
       diagnostics (snd (processFile e file branch s)) = diagnostics s) \<or>
   (\<exists>err localContent. fst (GetFileContent e branch file s) = Inl err \<and>
       fst (GetLocalFileContent e file s) = Inr localContent \<and>
       fst (processFile e file branch s) = localContent \<and>
       diagnostics (snd (processFile e file branch s)) = diagnostics s) \<or>
   (\<exists>err err2. fst (GetFileContent e branch file s) = Inl err \<and>
       fst (GetLocalFileContent e file s) = Inl err2 \<and>
       fst (processFile e file branch s) = ''Error retrieving file content.'' \<and>
       diagnostics (snd (processFile e file branch s)) =
         diagnostics s @ [''Warning: cannot retrieve content for '' @ file @ '': '' @ msg err2])"
  by (cases "run_err (run_git e [''show'', branch @ '':'' @ file])"; cases "os_ReadFile e file")
     (simp_all add: processFile_def GetFileContent_eq GetLocalFileContent_eq log_Printf_def call_def)

text \<open>
  Claim C2. When the fetch from the revision succeeds, \<open>processFile\<close> returns exactly the
  fetched content, whatever the working tree holds (\<open>localFiles\<close> is arbitrary), and its only
  external call is the \<^verbatim>\<open>git show\<close>: no file is read and nothing is logged.
\<close>

theorem C2_revision_content_wins:
  "fst (GetFileContent e branch file s) = Inr content \<Longrightarrow>
   processFile (e\<lparr>os_ReadFile := localFiles\<rparr>) file branch s =
     (content, call (Exec ''git'' [''show'', branch @ '':'' @ file]) s)"
  by (simp add: processFile_def GetFileContent_eq split: option.splits)

text \<open>
  Claim C3. When the fetch from the revision fails, with whatever error, and the read of
  the working-tree file succeeds, \<open>processFile\<close> returns the local content; it has run the
  \<^verbatim>\<open>git show\<close>, then read the file, and logged nothing.
\<close>

theorem C3_fallback_to_local:
  "fst (GetFileContent e branch file s) = Inl err \<Longrightarrow>
   os_ReadFile e file = Inr localContent \<Longrightarrow>
   processFile e file branch s =
     (localContent, call (ReadFile file) (call (Exec ''git'' [''show'', branch @ '':'' @ file]) s))"
  by (simp add: processFile_def GetFileContent_eq GetLocalFileContent_eq split: option.splits)

lemma example_show:
  "run_git example_env [''show'', ''main:src/a.go''] = ok ''old''"
  "run_git example_env [''show'', ''main:notes.txt''] =
     \<lparr>stdout = '''', stderr = ''fatal: invalid object name'', run_err = Some (Err ''exit status 128'')\<rparr>"
  "run_git example_env [''show'', ''main:gone.txt''] =
     \<lparr>stdout = '''', stderr = ''fatal: invalid object name'', run_err = Some (Err ''exit status 128'')\<rparr>"
  by (simp_all add: example_env_def)

lemma example_read:
  "os_ReadFile example_env ''src/a.go'' = Inr ''new''"
  "os_ReadFile example_env ''notes.txt'' = Inr ''hello''"
  "os_ReadFile example_env ''gone.txt'' = Inl (Err ''open gone.txt: no such file or directory'')"
  by (simp_all add: example_env_def)

theorem C1_processFile_witness:
  "processFile example_env ''gone.txt'' ''main'' init_state =
     (''Error retrieving file content.'',
      \<lparr>diagnostics = [''Warning: cannot retrieve content for gone.txt: error reading local file gone.txt: open gone.txt: no such file or directory''],
       calls = [Exec ''git'' [''show'', ''main:gone.txt''], ReadFile ''gone.txt'']\<rparr>)"
  using C1_processFile_always_returns_text [of example_env "''main''" "''gone.txt''" init_state]
  by (simp add: processFile_def GetFileContent_eq GetLocalFileContent_eq example_show example_read
        log_Printf_def call_def init_state_def)

theorem C2_revision_content_witness:
  "fst (GetFileContent example_env ''main'' ''src/a.go'' init_state) = Inr ''old'' \<and>
   os_ReadFile example_env ''src/a.go'' = Inr ''new'' \<and>
   processFile example_env ''src/a.go'' ''main'' init_state =
     (''old'', \<lparr>diagnostics = [], calls = [Exec ''git'' [''show'', ''main:src/a.go'']]\<rparr>)"
  using C2_revision_content_wins
    [of example_env "''main''" "''src/a.go''" init_state "''old''" "os_ReadFile example_env"]
  by (simp add: GetFileContent_eq example_show example_read ok_def call_def init_state_def)

theorem C3_fallback_witness:
  "fst (GetFileContent example_env ''main'' ''notes.txt'' init_state) =
     Inl (Err ''error getting file content for notes.txt from branch main: exit status 128, fatal: invalid object name'') \<and>
   os_ReadFile example_env ''notes.txt'' = Inr ''hello'' \<and>
   processFile example_env ''notes.txt'' ''main'' init_state =
     (''hello'', \<lparr>diagnostics = [],
                 calls = [Exec ''git'' [''show'', ''main:notes.txt''], ReadFile ''notes.txt'']\<rparr>)"
  using C3_fallback_to_local
    [of example_env "''main''" "''notes.txt''" init_state _ "''hello''"]
  by (simp add: GetFileContent_eq example_show example_read call_def init_state_def)

subsection \<open>The loop over the changed files\<close>

lemma process_changed_append:
  "process_changed e branch (xs @ ys) st =
   process_changed e branch ys (process_changed e branch xs st)"
proof (induction e branch xs st rule: process_changed.induct)
  case (1 e branch originalFiles s)
  show ?case by simp
next
  case (2 e branch f rest originalFiles s)
  then show ?case
    by (simp split: prod.splits sum.splits)
qed

text \<open>Entries that are the empty string leave no trace: neither a call, nor a log line, nor a key.\<close>

lemma process_changed_skips_empty:
  "process_changed e branch files st =
   process_changed e branch (filter (\<lambda>file. file \<noteq> '''') files) st"
  by (induction e branch files st rule: process_changed.induct)
     (simp_all split: prod.splits sum.splits)

lemma process_changed_unclassifiable:
  "file \<noteq> '''' \<Longrightarrow> os_Stat e file = Inl err \<Longrightarrow>
   process_changed e branch (file # rest) (m, s) =
   process_changed e branch rest
     (m, log_Printf (''Warning: could not determine if '' @ file @ '' is a directory: '' @ msg err)
           (call (Stat file) s))"
  by (simp add: IsDirectory_eq)

text \<open>
  Claim C4, amended. When \<^verbatim>\<open>os.Stat\<close> fails for a non-empty entry of the changed files, the
  run is not ended: \<open>main\<close> reaches the prompt. The entry adds no key to the map of
  contents, which is what the entries before it and after it produce, and it logs exactly
  one warning between them. The list of changed files handed to the prompt is the whole
  list, with the entry still in it.
\<close>

theorem C4_unclassifiable_entry:
  assumes "file \<noteq> ''''" and "os_Stat e file = Inl err"
    and "GetGitDiff e branch s = (Inr d, s1)"
    and "GetChangedFiles e branch includeUntracked s1 = (Inr (before @ file # rest), s2)"
    and "process_changed e branch before (Map.empty, s2) = (m3, s3)"
  shows "main e branch includeUntracked s =
     (case process_changed e branch rest
             (m3, log_Printf (''Warning: could not determine if '' @ file
                              @ '' is a directory: '' @ msg err) (call (Stat file) s3)) of
        (m4, s4) \<Rightarrow> (Prompt d (before @ file # rest) m4, s4))"
proof -
  have "process_changed e branch (before @ file # rest) (Map.empty, s2) =
        process_changed e branch rest
          (m3, log_Printf (''Warning: could not determine if '' @ file
                           @ '' is a directory: '' @ msg err) (call (Stat file) s3))"
    by (simp only: process_changed_append assms(5)
          process_changed_unclassifiable [OF assms(1) assms(2)])
  then show ?thesis
    by (simp add: main_def assms(3) assms(4))
qed

lemma GetChangedFiles_snd:
  "snd (GetChangedFiles e branch includeUntracked s) =
     (if includeUntracked \<and> run_err (run_git e [''diff'', ''--name-only'', branch]) = None
      then call (Exec ''git'' [''ls-files'', ''--others'', ''--exclude-standard''])
             (call (Exec ''git'' [''diff'', ''--name-only'', branch]) s)
      else call (Exec ''git'' [''diff'', ''--name-only'', branch]) s)"
  by (simp add: GetChangedFiles_def Let_def split_beta GetUntrackedFiles_snd
           split: option.splits sum.splits)

lemma GetAllFilesInDirectory_eq:
  "GetAllFilesInDirectory e dirPath s =
     (case walk_errors (lstat_tree e dirPath) of
        [] \<Rightarrow> Inr (tree_files (filepath_Join e) dirPath (lstat_tree e dirPath))
      | err # errs \<Rightarrow> Inl (Err (''error walking directory '' @ dirPath @ '': '' @ msg err)),
      call (Walk dirPath) s)"
  by (simp add: prod_eq_iff GetAllFilesInDirectory_fst GetAllFilesInDirectory_snd)

lemma example_fields:
  "run_git example_env = (\<lambda>args.
        if args = [''diff'', ''main''] then ok ''diff --git a/src/a.go b/src/a.go''
        else if args = [''diff'', ''--name-only'', ''main'']
          then ok ''src/a.go\<newline>\<newline>gone.txt\<newline>pkg\<newline>''
        else if args = [''ls-files'', ''--others'', ''--exclude-standard'']
          then ok ''notes.txt\<newline>''
        else if args = [''show'', ''main:src/a.go''] then ok ''old''
        else \<lparr>stdout = '''', stderr = ''fatal: invalid object name'',
               run_err = Some (Err ''exit status 128'')\<rparr>)"
  "os_ReadFile example_env = (\<lambda>p.
        if p = ''src/a.go'' then Inr ''new''
        else if p = ''notes.txt'' then Inr ''hello''
        else if p = ''pkg/a.go'' then Inr ''package pkg''
        else if p = ''pkg/sub/b.go'' then Inr ''package sub''
        else Inl (Err (''open '' @ p @ '': no such file or directory'')))"
  "os_Stat example_env = (\<lambda>p.
        if p = ''src/a.go'' then Inr \<lparr>Name = ''a.go'', IsDir = False\<rparr>
        else if p = ''notes.txt'' then Inr \<lparr>Name = ''notes.txt'', IsDir = False\<rparr>
        else if p = ''pkg'' then Inr \<lparr>Name = ''pkg'', IsDir = True\<rparr>
        else Inl (Err (''stat '' @ p @ '': no such file or directory'')))"
  by (simp_all add: example_env_def)

lemma example_GetGitDiff:
  "GetGitDiff example_env ''main'' s =
     (Inr ''diff --git a/src/a.go b/src/a.go'', call (Exec ''git'' [''diff'', ''main'']) s)"
  by (simp add: GetGitDiff_def example_fields ok_def)

lemma example_GetChangedFiles:
  "GetChangedFiles example_env ''main'' True s =
     (Inr [''src/a.go'', '''', ''gone.txt'', ''pkg'', ''notes.txt''],
      call (Exec ''git'' [''ls-files'', ''--others'', ''--exclude-standard''])
        (call (Exec ''git'' [''diff'', ''--name-only'', ''main'']) s))"
  by (simp add: prod_eq_iff GetChangedFiles_snd GetChangedFiles_fst [where s' = s]
        example_untracked example_git_names ok_def TrimSpace_example_tracked Split_def)

lemma example_before:
  "process_changed example_env ''main'' [''src/a.go'', ''''] (Map.empty, s) =
     ([''src/a.go'' \<mapsto> ''old''],
      call (Exec ''git'' [''show'', ''main:src/a.go'']) (call (Stat ''src/a.go'') s))"
  by (simp add: IsDirectory_eq processFile_def GetFileContent_eq example_fields ok_def)

lemma example_rest:
  "process_changed example_env ''main'' [''pkg'', ''notes.txt''] (m, s) =
     (m(''pkg/a.go'' \<mapsto> ''package pkg'', ''pkg/sub/b.go'' \<mapsto> ''package sub'',
        ''notes.txt'' \<mapsto> ''hello''),
      s\<lparr>calls := calls s @
        [Stat ''pkg'', Walk ''pkg'',
         Exec ''git'' [''show'', ''main:pkg/a.go''], ReadFile ''pkg/a.go'',
         Exec ''git'' [''show'', ''main:pkg/sub/b.go''], ReadFile ''pkg/sub/b.go'',
         Stat ''notes.txt'', Exec ''git'' [''show'', ''main:notes.txt''], ReadFile ''notes.txt'']\<rparr>)"
  by (simp add: IsDirectory_eq processFile_def GetFileContent_eq GetLocalFileContent_eq
        GetAllFilesInDirectory_eq example_tree example_fields call_def)

theorem C4_unclassifiable_entry_witness:
  "os_Stat example_env ''gone.txt'' = Inl (Err ''stat gone.txt: no such file or directory'') \<and>
   main example_env ''main'' True init_state =
     (Prompt ''diff --git a/src/a.go b/src/a.go''
        [''src/a.go'', '''', ''gone.txt'', ''pkg'', ''notes.txt'']
        [''src/a.go'' \<mapsto> ''old'', ''pkg/a.go'' \<mapsto> ''package pkg'',
         ''pkg/sub/b.go'' \<mapsto> ''package sub'', ''notes.txt'' \<mapsto> ''hello''],
      \<lparr>diagnostics =
         [''Warning: could not determine if gone.txt is a directory: stat gone.txt: no such file or directory''],
       calls =
         [Exec ''git'' [''diff'', ''main''],
          Exec ''git'' [''diff'', ''--name-only'', ''main''],
          Exec ''git'' [''ls-files'', ''--others'', ''--exclude-standard''],
          Stat ''src/a.go'', Exec ''git'' [''show'', ''main:src/a.go''],
          Stat ''gone.txt'',
          Stat ''pkg'', Walk ''pkg'',
          Exec ''git'' [''show'', ''main:pkg/a.go''], ReadFile ''pkg/a.go'',
          Exec ''git'' [''show'', ''main:pkg/sub/b.go''], ReadFile ''pkg/sub/b.go'',
          Stat ''notes.txt'', Exec ''git'' [''show'', ''main:notes.txt''], ReadFile ''notes.txt'']\<rparr>)"
proof -
  have stat: "os_Stat example_env ''gone.txt'' = Inl (Err ''stat gone.txt: no such file or directory'')"
    by (simp add: example_fields)
  have name: "''gone.txt'' \<noteq> ''''" by simp
  have changed: "GetChangedFiles example_env ''main'' True s =
     (Inr ([''src/a.go'', ''''] @ ''gone.txt'' # [''pkg'', ''notes.txt'']),
      call (Exec ''git'' [''ls-files'', ''--others'', ''--exclude-standard''])
        (call (Exec ''git'' [''diff'', ''--name-only'', ''main'']) s))" for s
    by (simp add: example_GetChangedFiles)
  from C4_unclassifiable_entry
         [OF name stat example_GetGitDiff changed example_before, of init_state]
  show ?thesis
    by (simp add: stat example_rest call_def log_Printf_def init_state_def
          del: process_changed.simps)
qed

text \<open>
  Claim C4 as stated fails: \<^verbatim>\<open>gone.txt\<close> cannot be classified, and it is a member of the
  changed files that \<open>main\<close> hands to the prompt.
\<close>

theorem C4_changed_files_keep_entry:
  "fst (IsDirectory example_env ''gone.txt'' init_state) =
     Inl (Err ''stat gone.txt: no such file or directory'') \<and>
   ''gone.txt'' \<in> set (prompt_changedFiles (fst (main example_env ''main'' True init_state)))"
  by (simp add: IsDirectory_eq example_fields main_def example_GetGitDiff example_GetChangedFiles
        split_beta)

lemma space_fields:
  "run_git space_env = (\<lambda>args.
        if args = [''diff'', ''--name-only'', ''main''] then ok ''a\<newline> \<newline>b\<newline>''
        else if args = [''show'', ''main: ''] then ok ''spaced''
        else ok '''')"
  "os_Stat space_env = (\<lambda>p. Inr \<lparr>Name = p, IsDir = False\<rparr>)"
  by (simp_all add: space_env_def)

lemma TrimSpace_space_output: "TrimSpace ''a\<newline> \<newline>b\<newline>'' = ''a\<newline> \<newline>b''"
  by (simp add: TrimSpace_def utf8_spaces_def lead_space_def strip.simps)

lemma TrimSpace_space: "TrimSpace '' '' = ''''"
  by (simp add: TrimSpace_def utf8_spaces_def lead_space_def strip.simps)

text \<open>
  Claim C9. The loop of \<open>main\<close> compares an entry with the empty string only. An entry made
  of a single space is blank (\<^verbatim>\<open>strings.TrimSpace\<close> empties it, and the loop over the same
  list in \<^verbatim>\<open>prompt.ConstructLLMPrompt\<close> skips it for that reason), but here it is
  classified, its content is resolved and it gets a key in the map of contents.
\<close>

theorem C9_whitespace_entry_is_processed:
  "TrimSpace '' '' = '''' \<and>
   main space_env ''main'' False init_state =
     (Prompt '''' [''a'', '' '', ''b'']
        [''a'' \<mapsto> '''', '' '' \<mapsto> ''spaced'', ''b'' \<mapsto> ''''],
      \<lparr>diagnostics = [],
       calls =
         [Exec ''git'' [''diff'', ''main''],
          Exec ''git'' [''diff'', ''--name-only'', ''main''],
          Stat ''a'', Exec ''git'' [''show'', ''main:a''],
          Stat '' '', Exec ''git'' [''show'', ''main: ''],
          Stat ''b'', Exec ''git'' [''show'', ''main:b'']]\<rparr>)"
proof -
  have "GetChangedFiles space_env ''main'' False s =
      (Inr [''a'', '' '', ''b''], call (Exec ''git'' [''diff'', ''--name-only'', ''main'']) s)" for s
    by (simp add: prod_eq_iff GetChangedFiles_snd GetChangedFiles_fst [where s' = s]
          space_fields ok_def TrimSpace_space_output Split_def)
  then show ?thesis
    by (simp add: TrimSpace_space main_def GetGitDiff_def IsDirectory_eq processFile_def
          GetFileContent_eq space_fields ok_def call_def init_state_def)
qed

end
